theory Spec2Isabelle
  imports Complex_Main
begin

section \<open>Numeric model\<close>

text \<open>
  The program is numpy code over IEEE doubles. Finite values are modelled as exact
  reals: rounding, overflow and underflow are outside the model. An operation that
  numpy answers with nan or an infinity (division by zero, the logarithm of a value
  that is not positive) gives \<open>NonFin\<close>; numpy raises no exception there.
  \<open>NonFin\<close> stands for "nan, +inf or -inf": added to, subtracted from or multiplied
  with anything it stays non-finite, and so does its logarithm. Every divisor of the
  program is a finite value, so division takes a real divisor.
\<close>

datatype fl = Fin real | NonFin

instantiation fl :: "{comm_monoid_add, minus, times}"
begin

definition zero_fl :: fl where
  "zero_fl = Fin 0"

fun plus_fl :: "fl \<Rightarrow> fl \<Rightarrow> fl" where
  "plus_fl (Fin a) (Fin b) = Fin (a + b)"
| "plus_fl _ _ = NonFin"

fun minus_fl :: "fl \<Rightarrow> fl \<Rightarrow> fl" where
  "minus_fl (Fin a) (Fin b) = Fin (a - b)"
| "minus_fl _ _ = NonFin"

fun times_fl :: "fl \<Rightarrow> fl \<Rightarrow> fl" where
  "times_fl (Fin a) (Fin b) = Fin (a * b)"
| "times_fl _ _ = NonFin"

instance
  apply standard
  subgoal for x y z by (cases x; cases y; cases z; simp)
  subgoal for x y by (cases x; cases y; simp)
  subgoal for x by (cases x; simp add: zero_fl_def)
  done

end

text \<open>\<open>a / b\<close> on doubles; the divisor is finite.\<close>

fun fdiv :: "fl \<Rightarrow> real \<Rightarrow> fl" where
  "fdiv (Fin a) b = (if b = 0 then NonFin else Fin (a / b))"
| "fdiv NonFin b = NonFin"

text \<open>\<open>np.log\<close>: -inf at zero, nan below it.\<close>

fun flog :: "fl \<Rightarrow> fl" where
  "flog (Fin a) = (if 0 < a then Fin (ln a) else NonFin)"
| "flog NonFin = NonFin"

section \<open>Exceptions\<close>

datatype error =
    AssertionError string
  | IndexError
  | KeyError
  | ValueError
  | LinAlgError

fun bnd :: "error + 'a \<Rightarrow> ('a \<Rightarrow> error + 'b) \<Rightarrow> error + 'b" where
  "bnd (Inl e) f = Inl e"
| "bnd (Inr x) f = f x"

section \<open>Two by two matrices\<close>

datatype mat2 = Mat2 (m00: real) (m01: real) (m10: real) (m11: real)

definition smul2 :: "real \<Rightarrow> mat2 \<Rightarrow> mat2" where
  "smul2 k M = Mat2 (k * m00 M) (k * m01 M) (k * m10 M) (k * m11 M)"

text \<open>\<open>np.dot\<close> of two matrices.\<close>

definition dot :: "mat2 \<Rightarrow> mat2 \<Rightarrow> mat2" where
  "dot A B = Mat2 (m00 A * m00 B + m01 A * m10 B) (m00 A * m01 B + m01 A * m11 B)
                  (m10 A * m00 B + m11 A * m10 B) (m10 A * m01 B + m11 A * m11 B)"

text \<open>\<open>R.T\<close>\<close>

definition transpose2 :: "mat2 \<Rightarrow> mat2" where
  "transpose2 M = Mat2 (m00 M) (m10 M) (m01 M) (m11 M)"

definition det2 :: "mat2 \<Rightarrow> real" where
  "det2 M = m00 M * m11 M - m01 M * m10 M"

definition ident2 :: mat2 where
  "ident2 = Mat2 1 0 0 1"

text \<open>\<open>np.linalg.inv\<close>: raises \<open>LinAlgError\<close> on a singular matrix.\<close>

definition linalg_inv :: "mat2 \<Rightarrow> error + mat2" where
  "linalg_inv M =
     (if det2 M = 0 then Inl LinAlgError
      else Inr (smul2 (1 / det2 M) (Mat2 (m11 M) (- m01 M) (- m10 M) (m00 M))))"

section \<open>Geometric transform\<close>

definition gen_galaxy_transformation :: "real \<Rightarrow> real \<Rightarrow> real \<Rightarrow> error + mat2" where
  "gen_galaxy_transformation sig_s rho_s phi_s =
     (let re_deg = max (1 / 30) sig_s / 3600;
          cp = cos phi_s;
          sp = sin phi_s;
          G = smul2 re_deg (Mat2 cp (sp * rho_s) (- sp) (cp * rho_s));
          cd = Mat2 (396 / 1000 / 3600) 0 0 (396 / 1000 / 3600)
      in bnd (linalg_inv G) (\<lambda>Ginv.
           let T = dot Ginv cd
           in bnd (linalg_inv T) (\<lambda>Tinv. Inr Tinv)))"

text \<open>
  The matrices of the specification: \<open>G\<close> built from \<open>re_deg\<close>, \<open>cos phi\<close>,
  \<open>sin phi\<close> and \<open>rho\<close>, the calibration matrix \<open>cd\<close>, and \<open>T = inverse(G) \<cdot> cd\<close>.
\<close>

definition spec_G :: "real \<Rightarrow> real \<Rightarrow> real \<Rightarrow> mat2" where
  "spec_G sigma rho phi =
     smul2 (max (1 / 30) sigma / 3600)
       (Mat2 (cos phi) (sin phi * rho) (- sin phi) (cos phi * rho))"

definition spec_cd :: mat2 where
  "spec_cd = Mat2 (396 / 1000 / 3600) 0 0 (396 / 1000 / 3600)"

definition spec_T :: "real \<Rightarrow> real \<Rightarrow> real \<Rightarrow> error + mat2" where
  "spec_T sigma rho phi = bnd (linalg_inv (spec_G sigma rho phi)) (\<lambda>Ginv. Inr (dot Ginv spec_cd))"

section \<open>Parameter transform and priors\<close>



definition galaxy_shape_prior_unconstrained :: "real \<Rightarrow> real \<Rightarrow> real \<Rightarrow> real \<Rightarrow> real" where
  "galaxy_shape_prior_unconstrained logit_theta log_sig logit_phi logit_rho =
     - (1 / 50) * (logit_theta * logit_theta + log_sig * log_sig +
                   logit_phi * logit_phi + logit_rho * logit_rho)"

text \<open>
  The value of the constrained prior: the constant \<open>-np.inf\<close>, or what
  \<open>fast_inv_gamma_lnpdf\<close> returns. That function lives in \<open>CelestePy.util.like\<close>,
  which is not part of the sources at hand; it is the parameter \<open>lnpdf\<close>, called
  as \<open>lnpdf x a0 b0\<close>, with a finite value.
\<close>

datatype lnprob = NegInf | LnVal real

definition galaxy_shape_prior_constrained ::
  "(real \<Rightarrow> real \<Rightarrow> real \<Rightarrow> real) \<Rightarrow> real \<Rightarrow> real \<Rightarrow> real \<Rightarrow> real \<Rightarrow> lnprob" where
  "galaxy_shape_prior_constrained lnpdf theta sig phi rho =
     (if theta \<le> 0 \<or> theta \<ge> 1 \<or> sig \<le> 0 \<or> phi \<le> 0 \<or> phi \<ge> pi \<or> rho \<le> 0 \<or> rho \<ge> 1
      then NegInf
      else LnVal (lnpdf (sig * sig) 1 1))"

text \<open>The open domains of the constrained shape parameters.\<close>

definition in_domain :: "real \<Rightarrow> real \<Rightarrow> real \<Rightarrow> real \<Rightarrow> bool" where
  "in_domain theta sigma phi rho \<longleftrightarrow>
     0 < theta \<and> theta < 1 \<and> 0 < sigma \<and> 0 < phi \<and> phi < pi \<and> 0 < rho \<and> rho < 1"

section \<open>Arrays\<close>

text \<open>
  A two-dimensional numpy array: its shape (rows, columns) and its entries in row-major
  order. The photon counts and the density images are such arrays.
\<close>

datatype 'a ndarray = NDArray (shape: "nat \<times> nat") (elts: "'a list")

definition ok_array :: "'a ndarray \<Rightarrow> bool" where
  "ok_array A \<longleftrightarrow> length (elts A) = fst (shape A) * snd (shape A)"

text \<open>A scalar combined with an array, and a function applied entrywise.\<close>

definition amap :: "('a \<Rightarrow> 'b) \<Rightarrow> 'a ndarray \<Rightarrow> 'b ndarray" where
  "amap f A = NDArray (shape A) (map f (elts A))"


text \<open>
  An entrywise operation on two arrays, with numpy's broadcasting: two axes go together
  when they are equal or one of them is 1 (that axis is then repeated); otherwise
  numpy raises \<open>ValueError\<close>.
\<close>

definition bdim :: "nat \<Rightarrow> nat \<Rightarrow> error + nat" where
  "bdim a b =
     (if a = b then Inr a else if a = 1 then Inr b else if b = 1 then Inr a
      else Inl ValueError)"

definition bget :: "'a ndarray \<Rightarrow> nat \<Rightarrow> nat \<Rightarrow> 'a" where
  "bget A i j =
     elts A ! ((if fst (shape A) = 1 then 0 else i) * snd (shape A) +
               (if snd (shape A) = 1 then 0 else j))"

definition broadcast2 :: "('a \<Rightarrow> 'b \<Rightarrow> 'c) \<Rightarrow> 'a ndarray \<Rightarrow> 'b ndarray \<Rightarrow> error + 'c ndarray" where
  "broadcast2 f A B =
     bnd (bdim (fst (shape A)) (fst (shape B))) (\<lambda>r.
     bnd (bdim (snd (shape A)) (snd (shape B))) (\<lambda>c.
       Inr (NDArray (r, c)
              (concat (map (\<lambda>i. map (\<lambda>j. f (bget A i j) (bget B i j)) [0..<c]) [0..<r])))))"

text \<open>\<open>v.reshape(shape)\<close> of a one-dimensional array, and \<open>A.T\<close>.\<close>

definition reshape :: "'a list \<Rightarrow> nat \<times> nat \<Rightarrow> error + 'a ndarray" where
  "reshape v sh = (if length v = fst sh * snd sh then Inr (NDArray sh v) else Inl ValueError)"

definition transposeT :: "'a ndarray \<Rightarrow> 'a ndarray" where
  "transposeT A =
     (let r = fst (shape A); c = snd (shape A)
      in NDArray (c, r) (concat (map (\<lambda>j. map (\<lambda>i. elts A ! (i * c + j)) [0..<r]) [0..<c])))"


definition lookup :: "('k \<rightharpoonup> 'v) \<Rightarrow> 'k \<Rightarrow> error + 'v" where
  "lookup d k = (case d k of None \<Rightarrow> Inl KeyError | Some v \<Rightarrow> Inr v)"

section \<open>Images, profiles and the compiled helpers\<close>

record image =
  band :: string
  calib :: real
  kappa :: real
  weights :: "real list"
  means :: "(real \<times> real) list"
  covars :: "mat2 list"
  pixel_grid :: "(real \<times> real) list"
  nelec :: "real ndarray"

text \<open>A galaxy profile: a mixture of Gaussians with amplitudes and covariances.\<close>

record profile =
  amp :: "real list"
  var :: "mat2 list"

text \<open>
  What the module imports and the sources at hand do not hold: the two profiles
  \<open>mp.get_exp_mixture()\<close> and \<open>mp.get_dev_mixture()\<close>, and the compiled routines
  \<open>celeste_fast.gen_galaxy_prof_psf_mixture_params\<close> and \<open>gmm_like_2d\<close>. They are
  parameters of the model. \<open>gmm_like_2d\<close> writes into the array \<open>probs\<close> it is given
  and leaves its length as it is: \<open>gmm_like_2d ext probs x ws mus sigs i\<close> is the
  value it leaves in \<open>probs[i]\<close>.
\<close>

record celeste_ext =
  exp_mixture :: profile
  dev_mixture :: profile
  gen_galaxy_prof_psf_mixture_params ::
    "mat2 \<Rightarrow> real list \<Rightarrow> real list \<Rightarrow> (real \<times> real) list \<Rightarrow> mat2 list \<Rightarrow> real list \<Rightarrow> real list
       \<Rightarrow> real list \<times> (real \<times> real) list \<times> mat2 list"
  gmm_like_2d ::
    "real list \<Rightarrow> (real \<times> real) list \<Rightarrow> real list \<Rightarrow> (real \<times> real) list \<Rightarrow> mat2 list \<Rightarrow> nat \<Rightarrow> real"


definition galaxy_prof_dict :: "celeste_ext \<Rightarrow> string \<rightharpoonup> profile" where
  "galaxy_prof_dict ext = map_of (zip [''exp'', ''dev''] [exp_mixture ext, dev_mixture ext])"

definition fast_gmm_like ::
  "celeste_ext \<Rightarrow> (real \<times> real) list \<Rightarrow> real list \<Rightarrow> (real \<times> real) list \<Rightarrow> mat2 list \<Rightarrow> real list" where
  "fast_gmm_like ext x ws mus sigs =
     (let N_elem = length x;
          probs = replicate N_elem 0
      in map (gmm_like_2d ext probs x ws mus sigs) [0..<length probs])"

section \<open>Profile and PSF convolution\<close>

definition gen_galaxy_prof_psf_image ::
  "celeste_ext \<Rightarrow> string \<Rightarrow> mat2 \<Rightarrow> real list \<Rightarrow> image \<Rightarrow> error + real ndarray" where
  "gen_galaxy_prof_psf_image ext prof_type R u img =
     (if galaxy_prof_dict ext prof_type = None
      then Inl (AssertionError ''unknown galaxy profile type'')
      else bnd (lookup (galaxy_prof_dict ext) prof_type) (\<lambda>prof.
        case gen_galaxy_prof_psf_mixture_params ext (dot R (transpose2 R)) u
               (weights img) (means img) (covars img) (amp prof) (map m00 (var prof)) of
          (ws, mus, sgs) \<Rightarrow>
            let psf_grid = fast_gmm_like ext (pixel_grid img) ws mus sgs
            in bnd (reshape psf_grid (shape (nelec img))) (\<lambda>A. Inr (transposeT A))))"

text \<open>
  \<open>theta_s, sig_s, phi_s, rho_s = th[0:4]\<close> raises \<open>ValueError\<close> on fewer than four
  entries. The location argument \<open>u_s\<close> is assigned \<open>th[4:6]\<close> before it is read.
  The flags \<open>check_overlap\<close> and \<open>unconstrained\<close> of the source are read nowhere and
  are left out.
\<close>

definition gen_galaxy_psf_image ::
  "celeste_ext \<Rightarrow> real list \<Rightarrow> real list \<Rightarrow> image \<Rightarrow> error + real ndarray" where
  "gen_galaxy_psf_image ext th u_s img =
     (if length th < 4 then Inl ValueError
      else
        let theta_s = th ! 0; sig_s = th ! 1; phi_s = th ! 2; rho_s = th ! 3
        in bnd (gen_galaxy_transformation sig_s rho_s phi_s) (\<lambda>R_s.
             let u_s = take 2 (drop 4 th)
             in bnd (gen_galaxy_prof_psf_image ext ''exp'' R_s u_s img) (\<lambda>f_nms_exp.
                bnd (gen_galaxy_prof_psf_image ext ''dev'' R_s u_s img) (\<lambda>f_nms_dev.
                bnd (broadcast2 (+) (amap ((*) theta_s) f_nms_exp)
                                    (amap ((*) (1 - theta_s)) f_nms_dev)) (\<lambda>f_nms.
                  Inr f_nms)))))"

section \<open>Likelihood\<close>



section \<open>Gradient\<close>





section \<open>The likelihood and the gradient as the specification words them\<close>



text \<open>The density array of one profile type for one image, entry by entry.\<close>

definition prof_image :: "celeste_ext \<Rightarrow> string \<Rightarrow> real list \<Rightarrow> image \<Rightarrow> error + real ndarray" where
  "prof_image ext p th img =
     bnd (gen_galaxy_transformation (th ! 1) (th ! 3) (th ! 2)) (\<lambda>R.
       gen_galaxy_prof_psf_image ext p R (take 2 (drop 4 th)) img)"

definition density :: "celeste_ext \<Rightarrow> string \<Rightarrow> real list \<Rightarrow> image \<Rightarrow> real list" where
  "density ext p th img = (case prof_image ext p th img of Inl e \<Rightarrow> [] | Inr A \<Rightarrow> elts A)"

text \<open>The flux of a band: the five fluxes follow the six shape and location entries.\<close>

definition flux :: "real list \<Rightarrow> string \<Rightarrow> real" where
  "flux th b =
     th ! (6 + (if b = ''u'' then 0 else if b = ''g'' then 1 else if b = ''r'' then 2
                else if b = ''i'' then 3 else 4))"

text \<open>\<open>f = theta * f_exp + (1 - theta) * f_dev\<close>, at pixel \<open>k\<close> of an image.\<close>

definition spec_f :: "celeste_ext \<Rightarrow> real list \<Rightarrow> image \<Rightarrow> nat \<Rightarrow> real" where
  "spec_f ext th img k =
     th ! 0 * density ext ''exp'' th img ! k + (1 - th ! 0) * density ext ''dev'' th img ! k"

text \<open>
  \<open>lam = (flux[b] / image.calib) * image.kappa * f\<close> and the term
  \<open>observed_n * log(lam) - lam\<close> of one pixel; their sum over the pixels of an image;
  the sum over the images.
\<close>

definition spec_lam :: "celeste_ext \<Rightarrow> real list \<Rightarrow> image \<Rightarrow> nat \<Rightarrow> fl" where
  "spec_lam ext th img k =
     fdiv (Fin (flux th (band img))) (calib img) * Fin (kappa img) * Fin (spec_f ext th img k)"

definition spec_image_ll :: "celeste_ext \<Rightarrow> real list \<Rightarrow> image \<Rightarrow> real ndarray \<Rightarrow> fl" where
  "spec_image_ll ext th img Z =
     sum_list (map (\<lambda>k. Fin (elts Z ! k) * flog (spec_lam ext th img k) - spec_lam ext th img k)
                 [0..<length (elts Z)])"









section \<open>A small instance\<close>

text \<open>
  One profile component each, a point-spread function of one component, and stand-ins
  for the compiled routines: the mixture weights are the products of the weights of the
  image and the amplitudes of the profile, and the density left at every pixel is the
  sum of the mixture weights.
\<close>

definition ext0 :: celeste_ext where
  "ext0 = \<lparr>exp_mixture = \<lparr>amp = [1], var = [Mat2 1 0 0 1]\<rparr>,
           dev_mixture = \<lparr>amp = [3], var = [Mat2 2 0 0 2]\<rparr>,
           gen_galaxy_prof_psf_mixture_params =
             (\<lambda>W v_s image_ws image_means image_covars gal_prof_amp gal_prof_sigs.
                (concat (map (\<lambda>w. map (\<lambda>a. w * a) gal_prof_amp) image_ws),
                 image_means, image_covars)),
           gmm_like_2d = (\<lambda>probs x ws mus sigs i. sum_list ws)\<rparr>"

definition img0 :: image where
  "img0 = \<lparr>band = ''r'', calib = 2, kappa = 1 / 4, weights = [1], means = [(0, 0)],
            covars = [Mat2 1 0 0 1], pixel_grid = [(0, 0), (0, 1), (1, 0), (1, 1)],
            nelec = NDArray (2, 2) [3, 0, 1, 2]\<rparr>"

definition th0 :: "real list" where
  "th0 = [1 / 2, 1, pi / 2, 1 / 2, 0, 0, 4, 4, 4, 4, 4]"

section \<open>Properties: the geometric transform\<close>

lemma bnd_Inr: "bnd m Inr = m"
  by (cases m) simp_all

lemma det2_smul2: "det2 (smul2 k M) = k * k * det2 M"
  by (simp add: det2_def smul2_def algebra_simps)

lemma det2_spec_G: "det2 (spec_G sigma rho phi) = (max (1/30) sigma / 3600) * (max (1/30) sigma / 3600) * rho"
proof -
  have "cos phi * cos phi + sin phi * sin phi = 1"
    using sin_cos_squared_add3 [of phi] by (simp add: power2_eq_square)
  then have "rho * (cos phi * cos phi + sin phi * sin phi) = rho"
    by simp
  then have "rho * (cos phi * cos phi) + rho * (sin phi * sin phi) = rho"
    by (simp only: distrib_left)
  moreover have "det2 (Mat2 (cos phi) (sin phi * rho) (- sin phi) (cos phi * rho)) =
      rho * (cos phi * cos phi) + rho * (sin phi * sin phi)"
    by (simp add: det2_def algebra_simps)
  ultimately have "det2 (Mat2 (cos phi) (sin phi * rho) (- sin phi) (cos phi * rho)) = rho"
    by simp
  then show ?thesis
    by (simp add: spec_G_def det2_smul2)
qed

lemma gen_spec: "gen_galaxy_transformation sigma rho phi = bnd (spec_T sigma rho phi) linalg_inv"
  by (cases "linalg_inv (spec_G sigma rho phi)")
     (simp_all add: gen_galaxy_transformation_def spec_T_def spec_G_def spec_cd_def Let_def bnd_Inr)

lemma linalg_inv_Inr:
  "linalg_inv M = Inr N \<longleftrightarrow>
     det2 M \<noteq> 0 \<and> N = Mat2 (m11 M / det2 M) (- m01 M / det2 M) (- m10 M / det2 M) (m00 M / det2 M)"
  by (auto simp: linalg_inv_def smul2_def)

lemma linalg_inv_right: 
  assumes "linalg_inv M = Inr N" shows "dot M N = ident2"
proof -
  define D where "D = det2 M"
  have D: "D \<noteq> 0" and N: "N = Mat2 (m11 M / D) (- m01 M / D) (- m10 M / D) (m00 M / D)"
    using assms by (simp_all add: linalg_inv_Inr D_def)
  have "m00 M * (m11 M / D) + m01 M * (- m10 M / D) = (m00 M * m11 M - m01 M * m10 M) / D"
    by (simp add: diff_divide_distrib)
  then have 1: "m00 M * (m11 M / D) + m01 M * (- m10 M / D) = 1"
    using D by (simp add: D_def det2_def)
  have "m10 M * (- m01 M / D) + m11 M * (m00 M / D) = (m00 M * m11 M - m01 M * m10 M) / D"
    by (simp add: diff_divide_distrib mult.commute)
  then have 2: "m10 M * (- m01 M / D) + m11 M * (m00 M / D) = 1"
    using D by (simp add: D_def det2_def)
  show ?thesis
    using D 1 2 by (simp add: N dot_def ident2_def mult.commute)
qed

lemma linalg_inv_left: 
  assumes "linalg_inv M = Inr N" shows "dot N M = ident2"
proof -
  define D where "D = det2 M"
  have D: "D \<noteq> 0" and N: "N = Mat2 (m11 M / D) (- m01 M / D) (- m10 M / D) (m00 M / D)"
    using assms by (simp_all add: linalg_inv_Inr D_def)
  have "m11 M / D * m00 M + (- m01 M / D) * m10 M = (m00 M * m11 M - m01 M * m10 M) / D"
    by (simp add: diff_divide_distrib mult.commute)
  then have 1: "m11 M / D * m00 M + (- m01 M / D) * m10 M = 1"
    using D by (simp add: D_def det2_def)
  have "(- m10 M / D) * m01 M + m00 M / D * m11 M = (m00 M * m11 M - m01 M * m10 M) / D"
    by (simp add: diff_divide_distrib mult.commute)
  then have 2: "(- m10 M / D) * m01 M + m00 M / D * m11 M = 1"
    using D by (simp add: D_def det2_def)
  show ?thesis
    using D 1 2 by (simp add: N dot_def ident2_def mult.commute)
qed

lemma det2_dot: "det2 (dot A B) = det2 A * det2 B"
  by (simp add: det2_def dot_def algebra_simps)

lemma det2_inv: assumes "linalg_inv M = Inr N" shows "det2 N \<noteq> 0"
proof -
  have "det2 (dot M N) = 1"
    using linalg_inv_right [OF assms] by (simp add: det2_def ident2_def)
  then show ?thesis
    by (auto simp: det2_dot)
qed

lemma spec_T_example: "spec_T 1 (1/2) (pi/2) = Inr (Mat2 0 (- (99/250)) (99/125) 0)"
  by (simp add: spec_T_def spec_G_def spec_cd_def linalg_inv_def det2_def smul2_def dot_def)

lemma gen_galaxy_transformation_example: "gen_galaxy_transformation 1 (1/2) (pi/2) = Inr (Mat2 0 (125/99) (- (250/99)) 0)"
  by (simp add: gen_galaxy_transformation_def linalg_inv_def det2_def smul2_def dot_def Let_def)

text \<open>
  Claim C1, as the code has it. For \<open>sigma > 0\<close>, \<open>rho\<close> in (0,1) and \<open>phi\<close> in
  (0,pi) the matrix \<open>T = inverse(G) \<cdot> cd\<close> exists and is invertible, and
  \<open>gen_galaxy_transformation\<close> returns \<open>inverse(T)\<close>, one matrix, with
  \<open>T \<cdot> inverse(T) = inverse(T) \<cdot> T = I\<close>. The matrix \<open>T\<close> is not part of what it returns.
\<close>

theorem gen_galaxy_transformation_returns_Tinv:
  assumes "0 < sigma" "0 < rho" "rho < 1" "0 < phi" "phi < pi"
  shows "\<exists>T Tinv. spec_T sigma rho phi = Inr T \<and> linalg_inv T = Inr Tinv \<and>
           gen_galaxy_transformation sigma rho phi = Inr Tinv \<and>
           dot T Tinv = ident2 \<and> dot Tinv T = ident2"
proof -
  have "max (1/30) sigma / 3600 \<noteq> 0"
    by (simp add: max_def)
  with assms have G: "det2 (spec_G sigma rho phi) \<noteq> 0"
    by (simp add: det2_spec_G)
  then obtain Ginv where Ginv: "linalg_inv (spec_G sigma rho phi) = Inr Ginv"
    by (simp add: linalg_inv_def)
  define T where "T = dot Ginv spec_cd"
  have T: "spec_T sigma rho phi = Inr T"
    by (simp add: spec_T_def Ginv T_def)
  have "det2 T \<noteq> 0"
    using det2_inv [OF Ginv] by (simp add: T_def det2_dot) (simp add: det2_def spec_cd_def)
  then obtain Tinv where Tinv: "linalg_inv T = Inr Tinv"
    by (simp add: linalg_inv_def)
  have "gen_galaxy_transformation sigma rho phi = Inr Tinv"
    by (simp add: gen_spec T Tinv)
  with T Tinv linalg_inv_right [OF Tinv] linalg_inv_left [OF Tinv] show ?thesis
    by blast
qed

theorem gen_galaxy_transformation_returns_Tinv_witness:
  "spec_T 1 (1/2) (pi/2) = Inr (Mat2 0 (- (99/250)) (99/125) 0) \<and>
   linalg_inv (Mat2 0 (- (99/250)) (99/125) 0) = Inr (Mat2 0 (125/99) (- (250/99)) 0) \<and>
   gen_galaxy_transformation 1 (1/2) (pi/2) = Inr (Mat2 0 (125/99) (- (250/99)) 0)"
  using gen_galaxy_transformation_returns_Tinv [of 1 "1/2" "pi/2"] spec_T_example
  by (auto simp: linalg_inv_def det2_def smul2_def)

text \<open>
  Claim C1 as the specification states it says that both \<open>T\<close> and \<open>inverse(T)\<close> are
  returned. At \<open>sigma = 1\<close>, \<open>rho = 1/2\<close>, \<open>phi = pi/2\<close> the one matrix returned is
  \<open>inverse(T)\<close>, and it differs from \<open>T\<close>.
\<close>

theorem gen_galaxy_transformation_not_T:
  "spec_T 1 (1/2) (pi/2) = Inr (Mat2 0 (- (99/250)) (99/125) 0) \<and>
   gen_galaxy_transformation 1 (1/2) (pi/2) = Inr (Mat2 0 (125/99) (- (250/99)) 0) \<and>
   gen_galaxy_transformation 1 (1/2) (pi/2) \<noteq> spec_T 1 (1/2) (pi/2)"
  by (simp add: spec_T_example gen_galaxy_transformation_example)

section \<open>Properties: the parameter transform and the priors\<close>









text \<open>
  Claim C8: the constrained shape prior returns \<open>-inf\<close> exactly when
  \<open>(theta, sigma, phi, rho)\<close> is outside the open domains, raising nothing, and otherwise
  the inverse-gamma log-density \<open>fast_inv_gamma_lnpdf\<close> at \<open>sigma\<^sup>2\<close> with
  \<open>a0 = b0 = 1\<close>.
\<close>

theorem galaxy_shape_prior_constrained_cases:
  "galaxy_shape_prior_constrained lnpdf theta sig phi rho =
     (if in_domain theta sig phi rho then LnVal (lnpdf (sig * sig) 1 1) else NegInf) \<and>
   (galaxy_shape_prior_constrained lnpdf theta sig phi rho = NegInf \<longleftrightarrow>
      \<not> in_domain theta sig phi rho)"
  by (auto simp: galaxy_shape_prior_constrained_def in_domain_def)

theorem galaxy_shape_prior_constrained_cases_witness:
  "galaxy_shape_prior_constrained (\<lambda>x a0 b0. - 2 * ln x - 1 / x) (1/2) 1 (pi/2) (1/2) = LnVal (- 1) \<and>
   galaxy_shape_prior_constrained (\<lambda>x a0 b0. - 2 * ln x - 1 / x) (1/2) 0 (pi/2) (1/2) = NegInf"
  using galaxy_shape_prior_constrained_cases [of "\<lambda>x a0 b0. - 2 * ln x - 1 / x" "1/2" 1 "pi/2" "1/2"]
        galaxy_shape_prior_constrained_cases [of "\<lambda>x a0 b0. - 2 * ln x - 1 / x" "1/2" 0 "pi/2" "1/2"]
  by (simp add: in_domain_def)



section \<open>Properties: arrays\<close>

lemma concat_rows:
  "concat (map (\<lambda>i. map (\<lambda>j. h (i * c + j)) [0..<c]) [0..<r]) = map h [0..<r * c]"
proof (induction r)
  case 0
  show ?case by simp
next
  case (Suc r)
  have "map (\<lambda>j. h (r * c + j)) [0..<c] = map h (map (\<lambda>j. j + r * c) [0..<c])"
    by (simp add: add.commute)
  also have "\<dots> = map h [r * c..<r * c + c]"
    by (simp only: map_add_upt add.commute)
  finally have row: "map (\<lambda>j. h (r * c + j)) [0..<c] = map h [r * c..<r * c + c]" .
  have "[0..<r * c + c] = [0..<r * c] @ [r * c..<r * c + c]"
    by (metis le_add1 upt_add_eq_append zero_le)
  then show ?case
    using Suc row by (simp add: add.commute)
qed

lemma bget_plain:
  assumes "i < fst (shape A)" "j < snd (shape A)"
  shows "bget A i j = elts A ! (i * snd (shape A) + j)"
  using assms by (auto simp: bget_def)

lemma broadcast2_same:
  assumes "ok_array A" "ok_array B" "shape A = shape B"
  shows "broadcast2 f A B = Inr (NDArray (shape A) (map2 f (elts A) (elts B)))"
proof -
  obtain r c where sh: "shape A = (r, c)" by (cases "shape A")
  have shB: "shape B = (r, c)"
    using assms(3) sh by simp
  have lenA: "length (elts A) = r * c" and lenB: "length (elts B) = r * c"
    using assms(1,2) by (simp_all add: ok_array_def sh shB)
  have "concat (map (\<lambda>i. map (\<lambda>j. f (bget A i j) (bget B i j)) [0..<c]) [0..<r]) =
        concat (map (\<lambda>i. map (\<lambda>j. f (elts A ! (i * c + j)) (elts B ! (i * c + j))) [0..<c]) [0..<r])"
    by (intro arg_cong [where f = concat] map_cong refl) (simp add: bget_plain sh shB)
  also have "\<dots> = map (\<lambda>k. f (elts A ! k) (elts B ! k)) [0..<r * c]"
    by (rule concat_rows)
  also have "\<dots> = map2 f (elts A) (elts B)"
    using lenA lenB by (intro nth_equalityI) simp_all
  finally show ?thesis
    by (simp add: broadcast2_def bdim_def sh shB)
qed




lemma shape_amap [simp]: "shape (amap f A) = shape A"
  by (simp add: amap_def)

lemma elts_amap [simp]: "elts (amap f A) = map f (elts A)"
  by (simp add: amap_def)

lemma ok_array_amap [simp]: "ok_array (amap f A) = ok_array A"
  by (simp add: ok_array_def)

lemma ok_array_NDArray: "ok_array (NDArray sh xs) \<longleftrightarrow> length xs = fst sh * snd sh"
  by (simp add: ok_array_def)

section \<open>Properties: the profile and PSF convolution\<close>

lemma galaxy_prof_dict_None: "galaxy_prof_dict ext p = None \<longleftrightarrow> p \<notin> {''exp'', ''dev''}"
  by (simp add: galaxy_prof_dict_def)


lemma prof_psf_image_cases:
  assumes "p \<in> {''exp'', ''dev''}"
  shows "gen_galaxy_prof_psf_image ext p R u img = Inl ValueError \<or>
         (\<exists>A. gen_galaxy_prof_psf_image ext p R u img = Inr A)"
proof -
  obtain prof where "galaxy_prof_dict ext p = Some prof"
    using assms galaxy_prof_dict_None [of ext p] by auto
  then show ?thesis
    by (auto simp: gen_galaxy_prof_psf_image_def lookup_def reshape_def Let_def split: prod.splits)
qed


lemma upt_0_2: "[0..<2] = [0, 1]"
  by (simp add: numeral_2_eq_2)

lemma img0_exp: "gen_galaxy_prof_psf_image ext0 ''exp'' R u img0 = Inr (NDArray (2, 2) [1, 1, 1, 1])"
  by (simp add: gen_galaxy_prof_psf_image_def galaxy_prof_dict_def lookup_def ext0_def img0_def
      fast_gmm_like_def reshape_def transposeT_def Let_def upt_0_2)

lemma img0_dev: "gen_galaxy_prof_psf_image ext0 ''dev'' R u img0 = Inr (NDArray (2, 2) [3, 3, 3, 3])"
  by (simp add: gen_galaxy_prof_psf_image_def galaxy_prof_dict_def lookup_def ext0_def img0_def
      fast_gmm_like_def reshape_def transposeT_def Let_def upt_0_2)

lemma img0_psf: "gen_galaxy_psf_image ext0 th0 u img0 = Inr (NDArray (2, 2) [2, 2, 2, 2])"
  by (simp add: gen_galaxy_psf_image_def th0_def gen_galaxy_transformation_example img0_exp img0_dev
       broadcast2_same ok_array_def amap_def Let_def)

text \<open>
  Claim C7: for every profile key other than \<open>exp\<close> and \<open>dev\<close>,
  \<open>gen_galaxy_prof_psf_image\<close> fails with the assertion error "unknown galaxy profile
  type" (the \<open>UnknownProfileType\<close> of the specification); for the keys \<open>exp\<close> and
  \<open>dev\<close> no assertion error is raised.
\<close>

theorem unknown_profile_type:
  "(prof_type \<notin> {''exp'', ''dev''} \<longrightarrow>
      gen_galaxy_prof_psf_image ext prof_type R u img =
        Inl (AssertionError ''unknown galaxy profile type'')) \<and>
   (prof_type \<in> {''exp'', ''dev''} \<longrightarrow>
      (\<forall>msg. gen_galaxy_prof_psf_image ext prof_type R u img \<noteq> Inl (AssertionError msg)))"
proof (intro conjI impI allI)
  assume "prof_type \<notin> {''exp'', ''dev''}"
  then show "gen_galaxy_prof_psf_image ext prof_type R u img =
        Inl (AssertionError ''unknown galaxy profile type'')"
    by (simp add: gen_galaxy_prof_psf_image_def galaxy_prof_dict_None)
next
  fix msg
  assume "prof_type \<in> {''exp'', ''dev''}"
  from prof_psf_image_cases [OF this, of ext R u img]
  show "gen_galaxy_prof_psf_image ext prof_type R u img \<noteq> Inl (AssertionError msg)"
    by auto
qed

theorem unknown_profile_type_witness:
  "gen_galaxy_prof_psf_image ext0 ''sersic'' (Mat2 1 0 0 1) [0, 0] img0 =
     Inl (AssertionError ''unknown galaxy profile type'') \<and>
   gen_galaxy_prof_psf_image ext0 ''exp'' (Mat2 1 0 0 1) [0, 0] img0 = Inr (NDArray (2, 2) [1, 1, 1, 1]) \<and>
   gen_galaxy_prof_psf_image ext0 ''dev'' (Mat2 1 0 0 1) [0, 0] img0 = Inr (NDArray (2, 2) [3, 3, 3, 3])"
  using unknown_profile_type [of "''sersic''" ext0 "Mat2 1 0 0 1" "[0, 0]" img0]
  by (simp add: img0_exp img0_dev)

text \<open>
  Claim C9: the result of \<open>gen_galaxy_psf_image\<close> does not depend on its argument
  \<open>u_s\<close>; the location is read from \<open>th[4:6]\<close>.
\<close>

theorem gen_galaxy_psf_image_ignores_u_s: "gen_galaxy_psf_image ext th u1 img = gen_galaxy_psf_image ext th u2 img"
  by (simp add: gen_galaxy_psf_image_def)

theorem gen_galaxy_psf_image_ignores_u_s_witness:
  "gen_galaxy_psf_image ext0 th0 [7, 7] img0 = gen_galaxy_psf_image ext0 th0 [] img0 \<and>
   gen_galaxy_psf_image ext0 th0 [7, 7] img0 = Inr (NDArray (2, 2) [2, 2, 2, 2])"
  using gen_galaxy_psf_image_ignores_u_s [of ext0 th0 "[7, 7]" img0 "[]"] by (simp add: img0_psf)

section \<open>Properties: the likelihood\<close>










text \<open>
  Inside the domain (a calibration that is not zero, every expected count positive) the
  sum of an image is a finite number: the Poisson sum over the reals.
\<close>

lemma sum_list_Fin: "sum_list (map (\<lambda>k. Fin (g k)) xs) = Fin (sum_list (map g xs))"
  by (induction xs) (simp_all add: zero_fl_def)

lemma spec_image_ll_finite:
  assumes "calib img \<noteq> 0"
    and "\<And>k. k < length (elts Z) \<Longrightarrow>
           0 < flux th (band img) / calib img * kappa img * spec_f ext th img k"
  shows "spec_image_ll ext th img Z =
     Fin (sum_list (map (\<lambda>k. elts Z ! k *
                               ln (flux th (band img) / calib img * kappa img * spec_f ext th img k) -
                             flux th (band img) / calib img * kappa img * spec_f ext th img k)
                      [0..<length (elts Z)]))"
proof -
  have "map (\<lambda>k. Fin (elts Z ! k) * flog (spec_lam ext th img k) - spec_lam ext th img k)
          [0..<length (elts Z)] =
        map (\<lambda>k. Fin (elts Z ! k *
                      ln (flux th (band img) / calib img * kappa img * spec_f ext th img k) -
                    flux th (band img) / calib img * kappa img * spec_f ext th img k))
          [0..<length (elts Z)]"
    using assms by (intro map_cong refl) (simp add: spec_lam_def)
  then show ?thesis
    by (simp only: spec_image_ll_def sum_list_Fin)
qed











section \<open>Properties: the gradient\<close>






























end
